theory Spec2Isabelle
  imports Complex_Main "HOL-Library.Multiset"
begin

section \<open>Python values and errors\<close>

text \<open>
  The scalar codecs of \<^verbatim>\<open>platesurvey.py\<close> are lambdas over dynamically typed values:
  a raw attribute read from XML is a \<^verbatim>\<open>str\<close>, a value given to the constructor may be
  \<^verbatim>\<open>None\<close>, an \<^verbatim>\<open>int\<close> or a \<^verbatim>\<open>float\<close>. Floats are modelled as reals: the code only
  compares them with zero and passes them on.
\<close>

datatype pyval = PyNone | PyStr string | PyInt int | PyFloat real

text \<open>
  Python's \<^verbatim>\<open>==\<close> on these builtin types: numbers compare by value across \<^verbatim>\<open>int\<close> and
  \<^verbatim>\<open>float\<close>, strings by content, \<^verbatim>\<open>None\<close> only equals \<^verbatim>\<open>None\<close>, and values of
  different kinds (a \<^verbatim>\<open>str\<close> and an \<^verbatim>\<open>int\<close>, say) are never equal.
  \<^verbatim>\<open>a != b\<close> is \<^verbatim>\<open>not (a == b)\<close> for all of them.
\<close>

fun py_eq :: "pyval \<Rightarrow> pyval \<Rightarrow> bool" where
  "py_eq PyNone PyNone = True"
| "py_eq (PyStr a) (PyStr b) = (a = b)"
| "py_eq (PyInt a) (PyInt b) = (a = b)"
| "py_eq (PyFloat a) (PyFloat b) = (a = b)"
| "py_eq (PyInt a) (PyFloat b) = (real_of_int a = b)"
| "py_eq (PyFloat a) (PyInt b) = (a = real_of_int b)"
| "py_eq _ _ = False"

definition py_ne :: "pyval \<Rightarrow> pyval \<Rightarrow> bool" where
  "py_ne a b = (\<not> py_eq a b)"

text \<open>
  The exceptions the two modules raise or let through. \<open>WellCountError n m\<close> is the
  \<^verbatim>\<open>ValueError\<close> of \<^verbatim>\<open>check_number_of_wells\<close> with the two numbers of its message
  (pydantic surfaces it as a validation error of the model); \<open>KeyError\<close> carries the
  message or key; \<open>ValidationError\<close> is a field that pydantic rejects; \<open>ParseError\<close> is
  any exception of an XML parse attempt; \<open>OSError\<close> is a file that cannot be opened.
\<close>

datatype error =
    KeyError string
  | WellCountError nat int
  | ValidationError string
  | ParseError string
  | OSError string


section \<open>Labware (\<^verbatim>\<open>labware.py\<close>)\<close>

text \<open>
  What a subclass instance holds under a field whose name the subclass body binds to a
  property: the value given for the field, or the property object itself (see below).
\<close>

datatype 'a attr = Given 'a | PropertyObject

text \<open>
  The fields of \<^verbatim>\<open>PlateInfo\<close>. The types of \<^verbatim>\<open>plateformat\<close>, \<^verbatim>\<open>usage\<close> and \<^verbatim>\<open>welllength\<close> are
  left open: in \<^verbatim>\<open>PlateInfo\<close> itself they are a string, a string and an integer.
\<close>

record ('s, 'i) PlateInfo =
  platetype :: string
  plateformat :: 's
  usage :: 's
  fluid :: "string option"
  manufacturer :: string
  lotnumber :: string
  partnumber :: string
  rows :: int
  cols :: int
  a1offsety :: int
  centerspacingx :: int
  centerspacingy :: int
  plateheight :: int
  skirtheight :: int
  wellwidth :: int
  welllength :: 'i
  wellcapacity :: int
  bottominset :: real
  centerwellposx :: real
  centerwellposy :: real
  minwellvol :: "real option"
  maxwellvol :: "real option"
  maxvoltotal :: "real option"
  minvolume :: "real option"
  dropvolume :: "real option"

text \<open>
  \<^verbatim>\<open>PlateInfoELWDest\<close> and \<^verbatim>\<open>PlateInfoELWSrc\<close> inherit every field of \<^verbatim>\<open>PlateInfo\<close>, and their
  bodies bind \<^verbatim>\<open>usage\<close>, \<^verbatim>\<open>welllength\<close> and \<^verbatim>\<open>plateformat\<close> to properties. \<^verbatim>\<open>PlateInfo\<close> is a
  pydantic model: when a model class is created, its fields are collected from the
  annotations, inherited ones included, and what the class holds under a field's name is
  taken as that field's default and removed from the class. The three property objects
  so become the defaults of the three inherited fields, and no property is left on the
  class to be called. An instance of a subclass stores, for each of the three fields,
  the value it was given or, when none was given, the property object; reading the
  attribute returns what is stored.
\<close>

type_synonym PlateInfoELW = "(string attr, int attr) PlateInfo"

text \<open>The functions the subclass bodies wrap in properties; no attribute read reaches them.\<close>

definition PlateInfoELWDest_usage :: "PlateInfoELW \<Rightarrow> string" where
  "PlateInfoELWDest_usage self = ''DEST''"

definition PlateInfoELWSrc_usage :: "PlateInfoELW \<Rightarrow> string" where
  "PlateInfoELWSrc_usage self = ''SRC''"

definition PlateInfoELW_welllength :: "PlateInfoELW \<Rightarrow> int" where
  "PlateInfoELW_welllength self = wellwidth self"

definition PlateInfoELW_plateformat :: "PlateInfoELW \<Rightarrow> string" where
  "PlateInfoELW_plateformat self = ''UNKNOWN''"

text \<open>
  An element of \<^verbatim>\<open>Labware._plates\<close> is an instance of \<^verbatim>\<open>PlateInfo\<close> or of one of its two
  subclasses; \<open>get_usage\<close>, \<open>get_welllength\<close> and the other functions \<open>get_\<close> are the attribute
  reads \<^verbatim>\<open>plate.usage\<close>, \<^verbatim>\<open>plate.welllength\<close> and so on.
\<close>

datatype plate =
    Generic "(string, int) PlateInfo"
  | ELWDest PlateInfoELW
  | ELWSrc PlateInfoELW

fun get_usage :: "plate \<Rightarrow> string attr" where
  "get_usage (Generic p) = Given (usage p)"
| "get_usage (ELWDest p) = usage p"
| "get_usage (ELWSrc p) = usage p"

fun get_welllength :: "plate \<Rightarrow> int attr" where
  "get_welllength (Generic p) = Given (welllength p)"
| "get_welllength (ELWDest p) = welllength p"
| "get_welllength (ELWSrc p) = welllength p"

fun get_plateformat :: "plate \<Rightarrow> string attr" where
  "get_plateformat (Generic p) = Given (plateformat p)"
| "get_plateformat (ELWDest p) = plateformat p"
| "get_plateformat (ELWSrc p) = plateformat p"

fun get_platetype :: "plate \<Rightarrow> string" where
  "get_platetype (Generic p) = platetype p"
| "get_platetype (ELWDest p) = platetype p"
| "get_platetype (ELWSrc p) = platetype p"

fun get_wellwidth :: "plate \<Rightarrow> int" where
  "get_wellwidth (Generic p) = wellwidth p"
| "get_wellwidth (ELWDest p) = wellwidth p"
| "get_wellwidth (ELWSrc p) = wellwidth p"

fun shape :: "plate \<Rightarrow> int \<times> int" where
  "shape (Generic p) = (rows p, cols p)"
| "shape (ELWDest p) = (rows p, cols p)"
| "shape (ELWSrc p) = (rows p, cols p)"

text \<open>
  The two document shapes. The one-field wrappers \<^verbatim>\<open>SourcePlateListELWX\<close>,
  \<^verbatim>\<open>DestinationPlateListELWX\<close>, \<^verbatim>\<open>SourcePlateListELW\<close> and \<^verbatim>\<open>DestinationPlateListELW\<close>
  are their \<^verbatim>\<open>plates\<close> list. A list of \<^verbatim>\<open>EchoLabwareELWX\<close> is typed \<^verbatim>\<open>list[PlateInfo]\<close> and
  may hold instances of the subclasses; the lists of \<^verbatim>\<open>EchoLabwareELW\<close> hold
  \<^verbatim>\<open>PlateInfoELWSrc\<close> and \<^verbatim>\<open>PlateInfoELWDest\<close> objects respectively, given here by
  what they store.
\<close>

record EchoLabwareELWX =
  sourceplates :: "plate list"
  destinationplates :: "plate list"

record EchoLabwareELW =
  sourceplates_ELW :: "PlateInfoELW list"
  destinationplates_ELW :: "PlateInfoELW list"

datatype raw_labware = ELWX EchoLabwareELWX | ELW EchoLabwareELW

record Labware =
  plates :: "plate list"

definition Labware_init :: "plate list \<Rightarrow> Labware" where
  "Labware_init ps = \<lparr>plates = ps\<rparr>"

fun from_raw :: "raw_labware \<Rightarrow> Labware" where
  "from_raw (ELWX raw) = Labware_init (sourceplates raw @ destinationplates raw)"
| "from_raw (ELW raw) =
     Labware_init (map ELWSrc (sourceplates_ELW raw) @ map ELWDest (destinationplates_ELW raw))"

text \<open>
  \<^verbatim>\<open>from_file\<close> and \<^verbatim>\<open>to_file\<close>: the file system is a map from paths to file contents. The
  two \<^verbatim>\<open>from_xml\<close> parsers belong to the XML library and are parameters, as is the
  serializer of \<^verbatim>\<open>to_xml\<close>; the type \<open>'x\<close> of the XML text is left open. The file is read
  before the \<^verbatim>\<open>try\<close>; an exception of the first attempt is caught
  (\<^verbatim>\<open>except Exception\<close>) and the second attempt runs outside any handler.
\<close>

definition from_file ::
  "(string \<rightharpoonup> 'x) \<Rightarrow> ('x \<Rightarrow> error + EchoLabwareELWX) \<Rightarrow> ('x \<Rightarrow> error + EchoLabwareELW) \<Rightarrow>
   string \<Rightarrow> error + Labware" where
  "from_file fs parse_ELWX parse_ELW path =
     (case fs path of
        None \<Rightarrow> Inl (OSError path)
      | Some xmlstr \<Rightarrow>
          (case parse_ELWX xmlstr of
             Inr raw \<Rightarrow> Inr (from_raw (ELWX raw))
           | Inl _ \<Rightarrow>
               (case parse_ELW xmlstr of
                  Inr raw \<Rightarrow> Inr (from_raw (ELW raw))
                | Inl e \<Rightarrow> Inl e)))"

text \<open>
  \<^verbatim>\<open>to_elwx\<close> compares \<^verbatim>\<open>plate.usage\<close> with the strings \<^verbatim>\<open>"SRC"\<close> and \<^verbatim>\<open>"DEST"\<close>; a property
  object is equal to neither.
\<close>

definition to_elwx :: "Labware \<Rightarrow> EchoLabwareELWX" where
  "to_elwx lw =
     \<lparr>sourceplates = filter (\<lambda>p. get_usage p = Given ''SRC'') (plates lw),
      destinationplates = filter (\<lambda>p. get_usage p = Given ''DEST'') (plates lw)\<rparr>"



fun lookup_plate :: "plate list \<Rightarrow> string \<Rightarrow> error + plate" where
  "lookup_plate [] k = Inl (KeyError k)"
| "lookup_plate (p # ps) k = (if get_platetype p = k then Inr p else lookup_plate ps k)"

definition getitem :: "Labware \<Rightarrow> string \<Rightarrow> error + plate" where
  "getitem lw k = lookup_plate (plates lw) k"

definition keys :: "Labware \<Rightarrow> string list" where
  "keys lw = map get_platetype (plates lw)"

text \<open>
  \<^verbatim>\<open>add\<close> mutates the collection: it returns the outcome together with the
  collection after the call.
\<close>

definition add :: "Labware \<Rightarrow> plate \<Rightarrow> (error + unit) \<times> Labware" where
  "add lw p =
     (if get_platetype p \<in> set (keys lw)
      then (Inl (KeyError (''Plate of type '' @ get_platetype p @ '' already exists.'')), lw)
      else (Inr (), lw\<lparr>plates := plates lw @ [p]\<rparr>))"


section \<open>Plate surveys (\<^verbatim>\<open>surveys/platesurvey.py\<close>)\<close>

subsection \<open>Scalar codecs\<close>

text \<open>
  \<^verbatim>\<open>Barcode\<close> and \<^verbatim>\<open>FloatNullZero\<close> annotate \<^verbatim>\<open>str | None\<close> and \<^verbatim>\<open>float | None\<close> with
  a \<^verbatim>\<open>BeforeValidator\<close>, which receives the raw input before the annotated type is
  validated, and a \<^verbatim>\<open>PlainSerializer\<close> declared with \<^verbatim>\<open>when_used="unless-none"\<close>, which is
  applied unless the value is \<^verbatim>\<open>None\<close>; a \<^verbatim>\<open>None\<close> is then serialized as \<^verbatim>\<open>None\<close>.
\<close>

definition Barcode_BeforeValidator :: "pyval \<Rightarrow> pyval" where
  "Barcode_BeforeValidator val = (if py_ne val (PyStr ''UnknownBarCode'') then val else PyNone)"

definition Barcode_PlainSerializer :: "string option \<Rightarrow> pyval" where
  "Barcode_PlainSerializer val =
     (case val of Some s \<Rightarrow> PyStr s | None \<Rightarrow> PyStr ''UnknownBarCode'')"

definition FloatNullZero_BeforeValidator :: "pyval \<Rightarrow> pyval" where
  "FloatNullZero_BeforeValidator val = (if py_ne val (PyInt 0) then val else PyNone)"

definition FloatNullZero_PlainSerializer :: "real option \<Rightarrow> pyval" where
  "FloatNullZero_PlainSerializer val = (case val of Some x \<Rightarrow> PyFloat x | None \<Rightarrow> PyInt 0)"

definition unless_none :: "('a option \<Rightarrow> pyval) \<Rightarrow> 'a option \<Rightarrow> pyval" where
  "unless_none f val = (case val of None \<Rightarrow> PyNone | Some _ \<Rightarrow> f val)"

text \<open>
  Validation of the annotated types themselves: \<^verbatim>\<open>str | None\<close> takes \<^verbatim>\<open>None\<close> and strings;
  \<^verbatim>\<open>float | None\<close> takes \<^verbatim>\<open>None\<close>, a float as it is, and an integer or a string that
  converts to a float. How a string reads as a float, and which float an integer
  becomes (none when it is out of range), is the validation library's business: both
  conversions are parameters.
\<close>

fun validate_str_or_none :: "pyval \<Rightarrow> error + string option" where
  "validate_str_or_none PyNone = Inr None"
| "validate_str_or_none (PyStr s) = Inr (Some s)"
| "validate_str_or_none (PyInt n) = Inl (ValidationError ''string_type'')"
| "validate_str_or_none (PyFloat x) = Inl (ValidationError ''string_type'')"

fun validate_float_or_none ::
  "(string \<Rightarrow> real option) \<Rightarrow> (int \<Rightarrow> real option) \<Rightarrow> pyval \<Rightarrow> error + real option" where
  "validate_float_or_none str_to_float int_to_float PyNone = Inr None"
| "validate_float_or_none str_to_float int_to_float (PyFloat x) = Inr (Some x)"
| "validate_float_or_none str_to_float int_to_float (PyInt n) =
     (case int_to_float n of
        Some x \<Rightarrow> Inr (Some x)
      | None \<Rightarrow> Inl (ValidationError ''float_type''))"
| "validate_float_or_none str_to_float int_to_float (PyStr s) =
     (case str_to_float s of
        Some x \<Rightarrow> Inr (Some x)
      | None \<Rightarrow> Inl (ValidationError ''float_parsing''))"

definition Barcode_validate :: "pyval \<Rightarrow> error + string option" where
  "Barcode_validate raw = validate_str_or_none (Barcode_BeforeValidator raw)"

definition Barcode_serialize :: "string option \<Rightarrow> pyval" where
  "Barcode_serialize val = unless_none Barcode_PlainSerializer val"

definition FloatNullZero_validate ::
  "(string \<Rightarrow> real option) \<Rightarrow> (int \<Rightarrow> real option) \<Rightarrow> pyval \<Rightarrow> error + real option" where
  "FloatNullZero_validate str_to_float int_to_float raw =
     validate_float_or_none str_to_float int_to_float (FloatNullZero_BeforeValidator raw)"

definition FloatNullZero_serialize :: "real option \<Rightarrow> pyval" where
  "FloatNullZero_serialize val = unless_none FloatNullZero_PlainSerializer val"

subsection \<open>Survey documents\<close>

datatype datetime = Datetime int int int int int int

record SignalFeature =
  feature_type :: string
  tof :: real
  vpp :: real

record EchoSignal =
  signal_type :: string
  transducer_x :: real
  transducer_y :: real
  transducer_z :: real
  features :: "SignalFeature list"

record WellSurvey =
  row :: nat
  column :: nat
  well :: string
  volume :: "real option"
  current_volume :: "real option"
  status :: string
  fluid :: string
  fluid_units :: string
  meniscus_x :: real
  meniscus_y :: real
  fluid_composition :: real
  dmso_homogeneous :: real
  dmso_inhomogeneous :: real
  fluid_thickness :: real
  current_fluid_thickness :: real
  bottom_thickness :: real
  fluid_thickness_homogeneous :: real
  fluid_thickness_imhomogeneous :: real
  outlier :: real
  corrective_action :: string
  echo_signal :: EchoSignal

record EchoPlateSurveyXML =
  plate_type :: string
  plate_barcode :: "string option"
  timestamp :: datetime
  instrument_serial_number :: string
  vtl :: int
  original :: int
  data_format_version :: int
  survey_rows :: int
  survey_columns :: int
  survey_total_wells :: int
  wells :: "WellSurvey list"
  plate_name :: "string option"
  comment :: "string option"

text \<open>
  The two \<^verbatim>\<open>model_validator(mode="after")\<close> methods run, in the order of their
  definition, on the instance built from the validated fields, for a parsed document and
  for a call of the constructor alike. The first raises; the second only logs, so the
  log is threaded through.
\<close>

definition check_number_of_wells :: "EchoPlateSurveyXML \<Rightarrow> error + EchoPlateSurveyXML" where
  "check_number_of_wells self =
     (if int (length (wells self)) \<noteq> survey_total_wells self
      then Inl (WellCountError (length (wells self)) (survey_total_wells self))
      else Inr self)"

definition check_data_format_version ::
  "EchoPlateSurveyXML \<Rightarrow> string list \<Rightarrow> EchoPlateSurveyXML \<times> string list" where
  "check_data_format_version self logged =
     (if data_format_version self \<noteq> 1
      then (self, logged @ [''Unexpected data format version {self.data_format_version}.''
                            @ '' This library has been tested on version 1.''])
      else (self, logged))"

definition model_validate ::
  "EchoPlateSurveyXML \<Rightarrow> string list \<Rightarrow> (error + EchoPlateSurveyXML) \<times> string list" where
  "model_validate self logged =
     (case check_number_of_wells self of
        Inl e \<Rightarrow> (Inl e, logged)
      | Inr s \<Rightarrow> (case check_data_format_version s logged of (s', logged') \<Rightarrow> (Inr s', logged')))"


section \<open>Sample data\<close>

definition plate_384PP :: "(string, int) PlateInfo" where
  "plate_384PP =
     \<lparr>platetype = ''384PP'', plateformat = ''384'', usage = ''SRC'', fluid = None,
      manufacturer = ''Labcyte'', lotnumber = ''1'', partnumber = ''P-05525'',
      rows = 16, cols = 24, a1offsety = 8990, centerspacingx = 450, centerspacingy = 450,
      plateheight = 1440, skirtheight = 610, wellwidth = 330, welllength = 330,
      wellcapacity = 65000, bottominset = 1, centerwellposx = 2, centerwellposy = 3,
      minwellvol = None, maxwellvol = None, maxvoltotal = None, minvolume = None,
      dropvolume = None\<rparr>"

definition plate_dest :: "(string, int) PlateInfo" where
  "plate_dest = plate_384PP\<lparr>platetype := ''384_Dest'', usage := ''DEST''\<rparr>"

definition plate_other :: "(string, int) PlateInfo" where
  "plate_other = plate_384PP\<lparr>platetype := ''1536LDV'', usage := ''BOTH''\<rparr>"

text \<open>
  A plate as the fixed-geometry parser builds it from a \<^verbatim>\<open>plateinfo\<close> element that has no
  \<^verbatim>\<open>usage\<close>, \<^verbatim>\<open>welllength\<close> or \<^verbatim>\<open>plateformat\<close> attribute, and the same plate built by a
  call of the constructor that gives the three values.
\<close>

definition plate_elw :: PlateInfoELW where
  "plate_elw =
     \<lparr>platetype = ''6RES'', plateformat = PropertyObject, usage = PropertyObject, fluid = None,
      manufacturer = ''Labcyte'', lotnumber = ''1'', partnumber = ''ER-0055'',
      rows = 2, cols = 3, a1offsety = 8990, centerspacingx = 450, centerspacingy = 450,
      plateheight = 1440, skirtheight = 610, wellwidth = 500, welllength = PropertyObject,
      wellcapacity = 2800000, bottominset = 1, centerwellposx = 2, centerwellposy = 3,
      minwellvol = None, maxwellvol = None, maxvoltotal = None, minvolume = None,
      dropvolume = None\<rparr>"

definition plate_elw_given :: PlateInfoELW where
  "plate_elw_given =
     plate_elw\<lparr>plateformat := Given ''384'', usage := Given ''SRC'', welllength := Given 330\<rparr>"

definition well_A1 :: WellSurvey where
  "well_A1 =
     \<lparr>row = 0, column = 0, well = ''A1'', volume = Some 50, current_volume = Some 50,
      status = [], fluid = ''AQ_BP'', fluid_units = ''%'', meniscus_x = 0, meniscus_y = 0,
      fluid_composition = 0, dmso_homogeneous = 0, dmso_inhomogeneous = 0,
      fluid_thickness = 2, current_fluid_thickness = 2, bottom_thickness = 1,
      fluid_thickness_homogeneous = 2, fluid_thickness_imhomogeneous = 2, outlier = 0,
      corrective_action = ''None'',
      echo_signal = \<lparr>signal_type = ''AVG'', transducer_x = 0, transducer_y = 0,
                      transducer_z = 0, features = []\<rparr>\<rparr>"

definition survey_of :: "WellSurvey list \<Rightarrow> int \<Rightarrow> EchoPlateSurveyXML" where
  "survey_of ws n =
     \<lparr>plate_type = ''384PP_AQ_BP'', plate_barcode = None,
      timestamp = Datetime 2023 5 17 10 30 0, instrument_serial_number = ''E5XX-1234'',
      vtl = 0, original = 0, data_format_version = 1, survey_rows = 16,
      survey_columns = 24, survey_total_wells = n, wells = ws, plate_name = None,
      comment = None\<rparr>"

definition raw_elw :: EchoLabwareELW where
  "raw_elw = \<lparr>sourceplates_ELW = [plate_elw], destinationplates_ELW = [plate_elw]\<rparr>"



definition labware_src_dest :: Labware where
  "labware_src_dest = Labware_init [Generic plate_384PP, Generic plate_dest]"

definition labware_dest_src :: Labware where
  "labware_dest_src = Labware_init [Generic plate_dest, Generic plate_384PP]"

definition labware_dup :: Labware where
  "labware_dup = Labware_init [Generic plate_384PP, Generic plate_384PP]"


section \<open>Properties of the labware collection\<close>

lemma to_elwx_plates [simp]:
  "sourceplates (to_elwx lw) = filter (\<lambda>p. get_usage p = Given ''SRC'') (plates lw)"
  "destinationplates (to_elwx lw) = filter (\<lambda>p. get_usage p = Given ''DEST'') (plates lw)"
  by (simp_all add: to_elwx_def)




lemma add_preserves_distinct:
  "distinct (keys lw) \<Longrightarrow> distinct (keys (snd (add lw p)))"
  by (auto simp: add_def keys_def)

lemma to_elwx_of_ELW_file:
  "to_elwx (from_raw (ELW raw_elw)) = to_elwx (Labware_init [])"
  by (simp add: to_elwx_def raw_elw_def Labware_init_def plate_elw_def)

text \<open>
  C2. Uniqueness of \<^verbatim>\<open>platetype\<close> is checked by \<^verbatim>\<open>add\<close> alone (lemma
  \<open>add_preserves_distinct\<close>). The constructor stores the list it is given and
  \<^verbatim>\<open>from_raw\<close> concatenates the two lists of a document without looking at them: a
  collection built from a list that names a plate type twice, or from a document of
  either shape whose source and destination lists share a plate type, has a duplicate
  key.
\<close>

theorem Labware_duplicate_platetype:
  "keys labware_dup = [''384PP'', ''384PP''] \<and>
   \<not> distinct (keys labware_dup) \<and>
   \<not> distinct (keys (from_raw (ELWX \<lparr>sourceplates = [Generic plate_384PP],
        destinationplates = [Generic (plate_384PP\<lparr>usage := ''DEST''\<rparr>)]\<rparr>))) \<and>
   \<not> distinct (keys (from_raw (ELW raw_elw)))"
  by (simp add: keys_def labware_dup_def raw_elw_def Labware_init_def
      plate_384PP_def plate_elw_def)




text \<open>
  C7. \<^verbatim>\<open>add\<close> with a plate whose \<^verbatim>\<open>platetype\<close> is already a key raises \<^verbatim>\<open>KeyError\<close> and
  leaves the collection as it was, same plates in the same order; with a plate whose
  \<^verbatim>\<open>platetype\<close> is new it succeeds and appends the plate.
\<close>

theorem add_duplicate_or_new:
  "(get_platetype p \<in> set (keys lw) \<longrightarrow>
      add lw p
        = (Inl (KeyError (''Plate of type '' @ get_platetype p @ '' already exists.'')), lw)) \<and>
   (get_platetype p \<notin> set (keys lw) \<longrightarrow>
      add lw p = (Inr (), lw\<lparr>plates := plates lw @ [p]\<rparr>))"
  by (simp add: add_def)

theorem add_duplicate_or_new_witness:
  "get_platetype (Generic plate_384PP) \<in> set (keys labware_dest_src) \<and>
   add labware_dest_src (Generic plate_384PP)
     = (Inl (KeyError ''Plate of type 384PP already exists.''), labware_dest_src) \<and>
   get_platetype (Generic plate_384PP) \<notin> set (keys (Labware_init [Generic plate_dest])) \<and>
   add (Labware_init [Generic plate_dest]) (Generic plate_384PP)
     = (Inr (), labware_dest_src)"
  using add_duplicate_or_new[of "Generic plate_384PP" labware_dest_src]
    add_duplicate_or_new[of "Generic plate_384PP" "Labware_init [Generic plate_dest]"]
  by (simp add: keys_def labware_dest_src_def Labware_init_def plate_384PP_def plate_dest_def)

text \<open>
  C8. The bodies of \<^verbatim>\<open>PlateInfoELWSrc\<close> and \<^verbatim>\<open>PlateInfoELWDest\<close> mean a plate of the source
  list to report usage \<^verbatim>\<open>"SRC"\<close>, a plate of the destination list usage \<^verbatim>\<open>"DEST"\<close>, and
  both a \<^verbatim>\<open>welllength\<close> equal to \<^verbatim>\<open>wellwidth\<close>, but their properties end up as defaults of
  the inherited fields. A document of the fixed-geometry shape is read into a collection
  that lists the plates of the source list, then those of the destination list; a plate
  read from an element without the three attributes reports the property object as its
  usage and as its \<^verbatim>\<open>welllength\<close>, in either list, and a plate that was given the three
  values reports what it was given, whatever its class and its \<^verbatim>\<open>wellwidth\<close>.
\<close>

theorem ELW_usage_not_inferred:
  "PlateInfoELWSrc_usage plate_elw = ''SRC'' \<and>
   PlateInfoELWDest_usage plate_elw = ''DEST'' \<and>
   PlateInfoELW_welllength plate_elw = 500 \<and>
   plates (from_raw (ELW raw_elw)) = [ELWSrc plate_elw, ELWDest plate_elw] \<and>
   get_usage (plates (from_raw (ELW raw_elw)) ! 0) = PropertyObject \<and>
   get_usage (plates (from_raw (ELW raw_elw)) ! 1) = PropertyObject \<and>
   get_welllength (plates (from_raw (ELW raw_elw)) ! 0) = PropertyObject \<and>
   get_welllength (plates (from_raw (ELW raw_elw)) ! 1) = PropertyObject \<and>
   get_wellwidth (plates (from_raw (ELW raw_elw)) ! 0) = 500 \<and>
   get_usage (ELWDest plate_elw_given) = Given ''SRC'' \<and>
   get_welllength (ELWDest plate_elw_given) = Given 330 \<and>
   get_wellwidth (ELWDest plate_elw_given) = 500 \<and>
   get_plateformat (ELWDest plate_elw_given) = Given ''384''"
  by (simp add: PlateInfoELWSrc_usage_def PlateInfoELWDest_usage_def PlateInfoELW_welllength_def
      raw_elw_def Labware_init_def plate_elw_def plate_elw_given_def)

text \<open>
  C9. The loader tries the generic shape first and returns its result when that parse
  succeeds; when it fails, whatever the failure, the fixed-geometry parse decides: its
  document is returned, or, when it fails as well, its error is the one the caller sees.
\<close>

theorem from_file_fallback:
  "fs path = Some xmlstr \<Longrightarrow>
   (\<forall>raw. parse_ELWX xmlstr = Inr raw \<longrightarrow>
      from_file fs parse_ELWX parse_ELW path = Inr (from_raw (ELWX raw))) \<and>
   (\<forall>e raw. parse_ELWX xmlstr = Inl e \<and> parse_ELW xmlstr = Inr raw \<longrightarrow>
      from_file fs parse_ELWX parse_ELW path = Inr (from_raw (ELW raw))) \<and>
   (\<forall>e1 e2. parse_ELWX xmlstr = Inl e1 \<and> parse_ELW xmlstr = Inl e2 \<longrightarrow>
      from_file fs parse_ELWX parse_ELW path = Inl e2)"
  by (simp add: from_file_def)

theorem from_file_fallback_witness:
  "from_file [''labware.xml'' \<mapsto> ''<EchoLabware/>'']
      (\<lambda>x. Inr (to_elwx labware_src_dest)) (\<lambda>x. Inl (ParseError ''second'')) ''labware.xml''
     = Inr labware_src_dest \<and>
   from_file [''labware.xml'' \<mapsto> ''<EchoLabware/>'']
      (\<lambda>x. Inl (ParseError ''first'')) (\<lambda>x. Inr raw_elw) ''labware.xml''
     = Inr (Labware_init [ELWSrc plate_elw, ELWDest plate_elw]) \<and>
   from_file [''labware.xml'' \<mapsto> ''<EchoLabware/>'']
      (\<lambda>x. Inl (ParseError ''first'')) (\<lambda>x. Inl (ParseError ''second'')) ''labware.xml''
     = Inl (ParseError ''second'')"
proof -
  have opened: "[''labware.xml'' \<mapsto> ''<EchoLabware/>''] ''labware.xml'' = Some ''<EchoLabware/>''"
    by simp
  note first = from_file_fallback[where fs = "[''labware.xml'' \<mapsto> ''<EchoLabware/>'']"
      and path = "''labware.xml''" and xmlstr = "''<EchoLabware/>''"
      and parse_ELWX = "\<lambda>x. Inr (to_elwx labware_src_dest)"
      and parse_ELW = "\<lambda>x. Inl (ParseError ''second'')", OF opened]
  note second = from_file_fallback[where fs = "[''labware.xml'' \<mapsto> ''<EchoLabware/>'']"
      and path = "''labware.xml''" and xmlstr = "''<EchoLabware/>''"
      and parse_ELWX = "\<lambda>x. Inl (ParseError ''first'')"
      and parse_ELW = "\<lambda>x. Inr raw_elw", OF opened]
  note both = from_file_fallback[where fs = "[''labware.xml'' \<mapsto> ''<EchoLabware/>'']"
      and path = "''labware.xml''" and xmlstr = "''<EchoLabware/>''"
      and parse_ELWX = "\<lambda>x. Inl (ParseError ''first'')"
      and parse_ELW = "\<lambda>x. Inl (ParseError ''second'')", OF opened]
  from first second both show ?thesis
    by (simp add: to_elwx_def labware_src_dest_def raw_elw_def Labware_init_def
        plate_384PP_def plate_dest_def)
qed

text \<open>
  C10. \<^verbatim>\<open>to_elwx\<close> leaves out every plate whose usage is neither \<^verbatim>\<open>"SRC"\<close> nor
  \<^verbatim>\<open>"DEST"\<close>: the plate is in neither list of the generic document, and the document is
  the one of the collection without that plate.
\<close>

theorem to_elwx_omits_other_usage:
  "get_usage p \<noteq> Given ''SRC'' \<Longrightarrow> get_usage p \<noteq> Given ''DEST'' \<Longrightarrow>
   p \<notin> set (sourceplates (to_elwx lw)) \<and> p \<notin> set (destinationplates (to_elwx lw)) \<and>
   to_elwx (Labware_init (xs @ p # ys)) = to_elwx (Labware_init (xs @ ys))"
  by (simp add: to_elwx_def Labware_init_def)

theorem to_elwx_omits_other_usage_witness:
  "get_usage (Generic plate_other) \<noteq> Given ''SRC'' \<and>
   get_usage (Generic plate_other) \<noteq> Given ''DEST'' \<and>
   Generic plate_other
     \<notin> set (sourceplates (to_elwx (Labware_init [Generic plate_384PP, Generic plate_other]))) \<and>
   Generic plate_other
     \<notin> set (destinationplates (to_elwx (Labware_init [Generic plate_384PP, Generic plate_other]))) \<and>
   to_elwx (Labware_init [Generic plate_384PP, Generic plate_other])
     = to_elwx (Labware_init [Generic plate_384PP])"
proof -
  have h1: "get_usage (Generic plate_other) \<noteq> Given ''SRC''"
    by (simp add: plate_other_def)
  have h2: "get_usage (Generic plate_other) \<noteq> Given ''DEST''"
    by (simp add: plate_other_def)
  note omitted = to_elwx_omits_other_usage[OF h1 h2,
      of "Labware_init [Generic plate_384PP, Generic plate_other]" "[Generic plate_384PP]" "[]",
      unfolded append.simps]
  from h1 h2 omitted show ?thesis by blast
qed


section \<open>Properties of the survey document and its codecs\<close>

lemma py_ne_str_int [simp]: "py_ne (PyStr s) (PyInt n)"
  by (simp add: py_ne_def)

lemma py_ne_str_str [simp]: "py_ne (PyStr s) (PyStr t) \<longleftrightarrow> s \<noteq> t"
  by (simp add: py_ne_def)

lemma model_validate_match:
  "int (length (wells self)) = survey_total_wells self \<Longrightarrow>
   fst (model_validate self logged) = Inr self"
  by (simp add: model_validate_def check_number_of_wells_def check_data_format_version_def)

lemma Barcode_validate_sentinel: "Barcode_validate (PyStr ''UnknownBarCode'') = Inr None"
  by (simp add: Barcode_validate_def Barcode_BeforeValidator_def)

lemma Barcode_validate_other:
  "s \<noteq> ''UnknownBarCode'' \<Longrightarrow> Barcode_validate (PyStr s) = Inr (Some s)"
  by (simp add: Barcode_validate_def Barcode_BeforeValidator_def)

lemma Barcode_serialize_Some: "Barcode_serialize (Some s) = PyStr s"
  by (simp add: Barcode_serialize_def unless_none_def Barcode_PlainSerializer_def)

lemma Barcode_PlainSerializer_None: "Barcode_PlainSerializer None = PyStr ''UnknownBarCode''"
  by (simp add: Barcode_PlainSerializer_def)

lemma FloatNullZero_validate_zero:
  "FloatNullZero_validate str_to_float int_to_float (PyInt 0) = Inr None"
  "FloatNullZero_validate str_to_float int_to_float (PyFloat 0) = Inr None"
  by (simp_all add: FloatNullZero_validate_def FloatNullZero_BeforeValidator_def py_ne_def)

lemma FloatNullZero_validate_nonzero:
  "x \<noteq> 0 \<Longrightarrow> FloatNullZero_validate str_to_float int_to_float (PyFloat x) = Inr (Some x)"
  by (simp add: FloatNullZero_validate_def FloatNullZero_BeforeValidator_def py_ne_def)

lemma FloatNullZero_validate_str:
  "FloatNullZero_validate str_to_float int_to_float (PyStr s) =
     (case str_to_float s of
        Some x \<Rightarrow> Inr (Some x)
      | None \<Rightarrow> Inl (ValidationError ''float_parsing''))"
  by (simp add: FloatNullZero_validate_def FloatNullZero_BeforeValidator_def)

lemma FloatNullZero_serialize_Some: "FloatNullZero_serialize (Some x) = PyFloat x"
  by (simp add: FloatNullZero_serialize_def unless_none_def FloatNullZero_PlainSerializer_def)

lemma FloatNullZero_PlainSerializer_None: "FloatNullZero_PlainSerializer None = PyInt 0"
  by (simp add: FloatNullZero_PlainSerializer_def)

text \<open>
  C1. A survey whose list of wells is not as long as \<^verbatim>\<open>survey_total_wells\<close> says, shorter
  or longer, is rejected by \<^verbatim>\<open>check_number_of_wells\<close>: validation ends with the error and
  returns no document (and logs nothing).
\<close>

theorem check_number_of_wells_mismatch:
  "int (length (wells self)) \<noteq> survey_total_wells self \<Longrightarrow>
   model_validate self logged =
     (Inl (WellCountError (length (wells self)) (survey_total_wells self)), logged)"
  by (simp add: model_validate_def check_number_of_wells_def)

theorem check_number_of_wells_mismatch_witness:
  "int (length (wells (survey_of [well_A1] 2))) \<noteq> survey_total_wells (survey_of [well_A1] 2) \<and>
   model_validate (survey_of [well_A1] 2) [] = (Inl (WellCountError 1 2), []) \<and>
   int (length (wells (survey_of [well_A1, well_A1, well_A1] 2)))
     \<noteq> survey_total_wells (survey_of [well_A1, well_A1, well_A1] 2) \<and>
   model_validate (survey_of [well_A1, well_A1, well_A1] 2) [] = (Inl (WellCountError 3 2), [])"
  using check_number_of_wells_mismatch[of "survey_of [well_A1] 2" "[]"]
    check_number_of_wells_mismatch[of "survey_of [well_A1, well_A1, well_A1] 2" "[]"]
  by (simp add: survey_of_def)

text \<open>
  C3. The validator of \<^verbatim>\<open>FloatNullZero\<close> compares the raw value with the integer \<^verbatim>\<open>0\<close>. A
  numeric zero becomes \<^verbatim>\<open>None\<close> (lemma \<open>FloatNullZero_validate_zero\<close>), but the raw
  attribute \<^verbatim>\<open>"0"\<close> of an XML document is a string, which is not equal to \<^verbatim>\<open>0\<close>: it
  passes the validator unchanged and is then read as a float, so the volume is never
  absent. The serializer is not applied to \<^verbatim>\<open>None\<close>, so an absent volume is serialized
  as \<^verbatim>\<open>None\<close>, not as \<^verbatim>\<open>0\<close>.
\<close>

theorem FloatNullZero_string_zero:
  "FloatNullZero_BeforeValidator (PyStr ''0'') = PyStr ''0'' \<and>
   FloatNullZero_validate str_to_float int_to_float (PyStr ''0'') \<noteq> Inr None \<and>
   FloatNullZero_validate (\<lambda>s. if s = ''0'' then Some 0 else None) int_to_float (PyStr ''0'')
     = Inr (Some 0) \<and>
   FloatNullZero_serialize None = PyNone"
  by (simp add: FloatNullZero_validate_str FloatNullZero_BeforeValidator_def
      FloatNullZero_serialize_def unless_none_def split: option.split)

text \<open>
  C4. The validator of \<^verbatim>\<open>Barcode\<close> turns the string \<^verbatim>\<open>"UnknownBarCode"\<close> into \<^verbatim>\<open>None\<close> and
  keeps any other string, and a present barcode is serialized as itself (lemmas
  \<open>Barcode_validate_sentinel\<close>, \<open>Barcode_validate_other\<close>, \<open>Barcode_serialize_Some\<close>). The
  serializer function would turn \<^verbatim>\<open>None\<close> into \<^verbatim>\<open>"UnknownBarCode"\<close> (lemma
  \<open>Barcode_PlainSerializer_None\<close>), but it is declared with \<^verbatim>\<open>when_used="unless-none"\<close> and
  is not applied to \<^verbatim>\<open>None\<close>: an absent barcode is serialized as \<^verbatim>\<open>None\<close>.
\<close>

theorem Barcode_serialize_None:
  "Barcode_serialize None = PyNone \<and> Barcode_serialize None \<noteq> PyStr ''UnknownBarCode''"
  by (simp add: Barcode_serialize_def unless_none_def)

end
